theory Spec2Isabelle
  imports Main "HOL-Library.Sublist"
begin

section \<open>JavaScript strings\<close>

text \<open>
  A JavaScript string is modelled as a \<^typ>\<open>string\<close>; every \<^typ>\<open>char\<close> stands for
  one code unit below 256.  \<open>String.prototype.trim\<close> strips the ECMAScript
  white space and line terminator code units from both ends; the ones below 256 are
  TAB, LF, VT, FF, CR, SPACE and NO-BREAK SPACE.
\<close>

definition isWhiteSpace :: "char \<Rightarrow> bool" where
  "isWhiteSpace c \<longleftrightarrow>
     c \<in> set [CHR 0x09, CHR 0x0A, CHR 0x0B, CHR 0x0C, CHR 0x0D, CHR 0x20, CHR 0xA0]"

definition trim :: "string \<Rightarrow> string" where
  "trim s = rev (dropWhile isWhiteSpace (rev (dropWhile isWhiteSpace s)))"

text \<open>\<open>s.includes(p)\<close>: \<open>p\<close> occurs in \<open>s\<close> as a contiguous run of code units.\<close>

fun includesStr :: "string \<Rightarrow> string \<Rightarrow> bool" where
  "includesStr [] p = (p = [])"
| "includesStr (c # cs) p = (prefix p (c # cs) \<or> includesStr cs p)"

text \<open>
  Truthiness of the values the code tests with \<open>&&\<close>, \<open>||\<close>, \<open>!\<close> and \<open>if\<close>:
  a string is truthy unless it is empty, a number unless it is zero, and
  \<open>undefined\<close> (\<^const>\<open>None\<close>) is falsy.
\<close>

definition truthyString :: "string \<Rightarrow> bool" where
  "truthyString s \<longleftrightarrow> s \<noteq> []"

definition truthyOptString :: "string option \<Rightarrow> bool" where
  "truthyOptString v = (case v of None \<Rightarrow> False | Some s \<Rightarrow> truthyString s)"

definition truthyOptNumber :: "int option \<Rightarrow> bool" where
  "truthyOptNumber v = (case v of None \<Rightarrow> False | Some n \<Rightarrow> n \<noteq> 0)"

section \<open>Data model (\<open>match.types\<close>)\<close>

datatype MatchState = Played | Upcoming | Postponed | Canceled

text \<open>
  The interface \<open>Match\<close>.  Optional fields are options, \<^const>\<open>None\<close> being
  \<open>undefined\<close>.  No validator looks at the value of a score, so the type of
  JavaScript numbers is left as the parameter \<open>'num\<close>.
\<close>

record 'num Match =
  homeTeam :: string
  awayTeam :: string
  homeScore :: "'num option"
  awayScore :: "'num option"
  date :: string
  time :: "string option"
  state :: "MatchState option"
  link :: "string option"

record NetworkRequest =
  url :: string
  "method" :: string
  timestamp :: int
  responseTime :: "int option"
  cached :: "bool option"
  status :: "int option"

section \<open>Validators (\<open>helpers/validators.ts\<close>)\<close>

text \<open>The result of \<open>typeof\<close> on a field of type \<open>number | undefined\<close> and on a string.\<close>

definition typeofOptNumber :: "'num option \<Rightarrow> string" where
  "typeofOptNumber v = (case v of None \<Rightarrow> ''undefined'' | Some _ \<Rightarrow> ''number'')"

definition typeofString :: "string \<Rightarrow> string" where
  "typeofString s = ''string''"

definition validateMatch :: "('num, 'm) Match_scheme \<Rightarrow> bool" where
  "validateMatch match \<longleftrightarrow>
     truthyString (homeTeam match) \<and>
     truthyString (awayTeam match) \<and>
     truthyString (date match) \<and>
     typeofString (homeTeam match) = ''string'' \<and>
     typeofString (awayTeam match) = ''string'' \<and>
     length (trim (homeTeam match)) > 0 \<and>
     length (trim (awayTeam match)) > 0"

definition isPlayedMatch :: "('num, 'm) Match_scheme \<Rightarrow> bool" where
  "isPlayedMatch match \<longleftrightarrow>
     homeScore match \<noteq> None \<and>
     awayScore match \<noteq> None \<and>
     typeofOptNumber (homeScore match) = ''number'' \<and>
     typeofOptNumber (awayScore match) = ''number''"

definition isUpcomingMatch :: "('num, 'm) Match_scheme \<Rightarrow> bool" where
  "isUpcomingMatch match \<longleftrightarrow>
     \<not> isPlayedMatch match \<and>
     (case time match of
        None \<Rightarrow> False
      | Some t \<Rightarrow> length (trim t) > 0)"

section \<open>Network observer (the \<open>beforeEach\<close> listeners)\<close>

text \<open>
  What the listeners read from the browser's request and response objects:
  \<open>request.url()\<close>, \<open>request.method()\<close>, \<open>response.url()\<close>,
  \<open>response.status()\<close> and \<open>response.headers()\<close>, an object from header names
  to header values.
\<close>

record Request =
  requestUrl :: string
  requestMethod :: string

record Response =
  responseUrl :: string
  responseStatus :: int
  responseHeaders :: "(string \<times> string) list"

text \<open>
  The array \<open>networkRequests\<close> is a list that every listener takes and returns;
  \<open>Date.now()\<close> is the argument \<open>now\<close>.
\<close>

definition onRequest :: "int \<Rightarrow> Request \<Rightarrow> NetworkRequest list \<Rightarrow> NetworkRequest list" where
  "onRequest now request networkRequests =
     networkRequests @
       [\<lparr>url = requestUrl request, method = requestMethod request, timestamp = now,
         responseTime = None, cached = None, status = None\<rparr>]"

text \<open>
  \<open>Array.prototype.find\<close> returns the first element that satisfies the predicate, and
  the listener then assigns to that element's fields in place: the model finds the
  position and updates the list there.
\<close>

fun findIndex :: "('a \<Rightarrow> bool) \<Rightarrow> 'a list \<Rightarrow> nat option" where
  "findIndex P [] = None"
| "findIndex P (x # xs) = (if P x then Some 0 else map_option Suc (findIndex P xs))"

text \<open>\<open>a || b\<close> on two optional strings.\<close>

definition orElse :: "string option \<Rightarrow> string option \<Rightarrow> string option" where
  "orElse a b = (if truthyOptString a then a else b)"

definition unmatched :: "Response \<Rightarrow> NetworkRequest \<Rightarrow> bool" where
  "unmatched response req \<longleftrightarrow>
     url req = responseUrl response \<and> \<not> truthyOptNumber (responseTime req)"

definition onResponse :: "int \<Rightarrow> Response \<Rightarrow> NetworkRequest list \<Rightarrow> NetworkRequest list" where
  "onResponse now response networkRequests =
     (case findIndex (unmatched response) networkRequests of
        None \<Rightarrow> networkRequests
      | Some i \<Rightarrow>
          let request = networkRequests ! i;
              cacheControl = map_of (responseHeaders response) ''cache-control'';
              etag = map_of (responseHeaders response) ''etag''
          in networkRequests
               [i := request
                  \<lparr>responseTime := Some (now - timestamp request),
                   status := Some (responseStatus response),
                   cached := Some (truthyOptString (orElse cacheControl etag))\<rparr>])"

datatype pageEvent = RequestEvent Request | ResponseEvent Response

fun dispatch :: "int \<times> pageEvent \<Rightarrow> NetworkRequest list \<Rightarrow> NetworkRequest list" where
  "dispatch (now, RequestEvent request) networkRequests = onRequest now request networkRequests"
| "dispatch (now, ResponseEvent response) networkRequests =
     onResponse now response networkRequests"

text \<open>The events of one test, each with the clock reading at its arrival, in arrival order.\<close>

fun observe :: "(int \<times> pageEvent) list \<Rightarrow> NetworkRequest list \<Rightarrow> NetworkRequest list" where
  "observe [] networkRequests = networkRequests"
| "observe (e # es) networkRequests = observe es (dispatch e networkRequests)"

section \<open>Report aggregator (the \<open>forEach\<close> of the request report)\<close>

record RequestsByType =
  api :: nat
  data :: nat
  assets :: nat
  other :: nat

subsection \<open>Plain objects used as dictionaries\<close>

text \<open>
  \<open>requestsByMethod\<close> and \<open>requestsByDomain\<close> are object literals \<open>{}\<close> indexed
  by strings.  Such an object has its own properties, a map from keys to values, and
  inherits the members of \<open>Object.prototype\<close>: eleven native functions and the
  accessor \<open>__proto__\<close>.  The values that occur are \<open>undefined\<close>, the counts, the
  strings that \<open>+\<close> makes of a value that is not a number, the native functions
  (given by their names) and \<open>Object.prototype\<close> itself.
\<close>

datatype jsValue =
  JsUndefined | JsNumber nat | JsString string | JsFunction string | JsObjectPrototype

type_synonym jsObject = "string \<rightharpoonup> jsValue"

text \<open>The function members of \<open>Object.prototype\<close>, each key with the function's name.\<close>

definition prototypeFunctions :: "(string \<times> string) list" where
  "prototypeFunctions =
     [(''constructor'', ''Object''),
      (''__defineGetter__'', ''__defineGetter__''),
      (''__defineSetter__'', ''__defineSetter__''),
      (''hasOwnProperty'', ''hasOwnProperty''),
      (''__lookupGetter__'', ''__lookupGetter__''),
      (''__lookupSetter__'', ''__lookupSetter__''),
      (''isPrototypeOf'', ''isPrototypeOf''),
      (''propertyIsEnumerable'', ''propertyIsEnumerable''),
      (''toString'', ''toString''),
      (''valueOf'', ''valueOf''),
      (''toLocaleString'', ''toLocaleString'')]"

definition inheritedKey :: "string \<Rightarrow> bool" where
  "inheritedKey k \<longleftrightarrow> k = ''__proto__'' \<or> map_of prototypeFunctions k \<noteq> None"

text \<open>
  \<open>obj[k]\<close> as an expression: the own property when there is one, the inherited
  member otherwise, \<open>undefined\<close> when there is neither.
\<close>

definition getProperty :: "jsObject \<Rightarrow> string \<Rightarrow> jsValue" where
  "getProperty obj k =
     (case obj k of
        Some v \<Rightarrow> v
      | None \<Rightarrow>
          if k = ''__proto__'' then JsObjectPrototype
          else (case map_of prototypeFunctions k of
                  Some f \<Rightarrow> JsFunction f
                | None \<Rightarrow> JsUndefined))"

text \<open>
  \<open>obj[k] = v\<close> for a number or a string \<open>v\<close>, the only values the aggregator
  assigns: the key \<open>__proto__\<close> reaches the inherited setter, which ignores a value
  that is neither an object nor \<open>null\<close>; every other key becomes an own property.
\<close>

definition setProperty :: "jsObject \<Rightarrow> string \<Rightarrow> jsValue \<Rightarrow> jsObject" where
  "setProperty obj k v = (if k = ''__proto__'' then obj else obj(k \<mapsto> v))"

text \<open>The string of a native function, as \<open>+\<close> obtains it.\<close>

definition functionToString :: "string \<Rightarrow> string" where
  "functionToString f = ''function '' @ f @ ''() { [native code] }''"

text \<open>
  \<open>(v || 0) + 1\<close>: a falsy \<open>v\<close> (\<open>undefined\<close>, zero, the empty string) gives
  \<open>0 + 1\<close>; a truthy number is incremented; a truthy string, a function and an
  object are turned into a string to which \<open>1\<close> is appended.
\<close>

fun orZeroPlusOne :: "jsValue \<Rightarrow> jsValue" where
  "orZeroPlusOne JsUndefined = JsNumber (0 + 1)"
| "orZeroPlusOne (JsNumber n) = (if n \<noteq> 0 then JsNumber (n + 1) else JsNumber (0 + 1))"
| "orZeroPlusOne (JsString s) = (if s \<noteq> [] then JsString (s @ ''1'') else JsNumber (0 + 1))"
| "orZeroPlusOne (JsFunction f) = JsString (functionToString f @ ''1'')"
| "orZeroPlusOne JsObjectPrototype = JsString (''[object Object]'' @ ''1'')"

text \<open>\<open>counts[k] = (counts[k] || 0) + 1\<close> on such an object.\<close>

definition incrementProperty :: "jsObject \<Rightarrow> string \<Rightarrow> jsObject" where
  "incrementProperty counts k = setProperty counts k (orZeroPlusOne (getProperty counts k))"

text \<open>
  A key of \<open>statusCodes\<close> is a number, which as a property key is its numeral; no
  member of \<open>Object.prototype\<close> has such a name, so this object is a map from
  numbers to counts.
\<close>

record RequestReport =
  totalRequests :: nat
  requestsByMethod :: jsObject
  requestsByDomain :: jsObject
  requestsByType :: RequestsByType
  statusCodes :: "int \<rightharpoonup> nat"

text \<open>
  \<open>new URL(s)\<close> is the platform's parser, not code of the repository: it is the
  parameter \<open>newURL\<close>, which returns the parsed URL or throws a \<open>TypeError\<close>.  The
  aggregator reads only \<open>hostname\<close>.
\<close>

datatype error = TypeError

record URL =
  hostname :: string

definition bindResult :: "error + 'a \<Rightarrow> ('a \<Rightarrow> error + 'b) \<Rightarrow> error + 'b" where
  "bindResult r f = (case r of Inl e \<Rightarrow> Inl e | Inr v \<Rightarrow> f v)"

definition tryCatch :: "error + 'a \<Rightarrow> (error \<Rightarrow> error + 'a) \<Rightarrow> error + 'a" where
  "tryCatch body handler = (case body of Inl e \<Rightarrow> handler e | Inr v \<Rightarrow> Inr v)"

text \<open>\<open>counts[k] = (counts[k] || 0) + 1\<close> on \<open>statusCodes\<close>.\<close>

definition orZero :: "nat option \<Rightarrow> nat" where
  "orZero v = (case v of None \<Rightarrow> 0 | Some n \<Rightarrow> if n \<noteq> 0 then n else 0)"

definition increment :: "('k \<rightharpoonup> nat) \<Rightarrow> 'k \<Rightarrow> ('k \<rightharpoonup> nat)" where
  "increment counts k = counts(k \<mapsto> orZero (counts k) + 1)"

definition countByType :: "string \<Rightarrow> RequestsByType \<Rightarrow> RequestsByType" where
  "countByType u byType =
     (if includesStr u ''api'' \<or> includesStr u ''data'' then byType\<lparr>api := api byType + 1\<rparr>
      else if includesStr u ''.js'' \<or> includesStr u ''.css'' \<or>
              includesStr u ''.png'' \<or> includesStr u ''.jpg''
        then byType\<lparr>assets := assets byType + 1\<rparr>
      else if includesStr u ''match'' \<or> includesStr u ''live''
        then byType\<lparr>data := data byType + 1\<rparr>
      else byType\<lparr>other := other byType + 1\<rparr>)"

definition countByStatus :: "NetworkRequest \<Rightarrow> RequestReport \<Rightarrow> RequestReport" where
  "countByStatus req report =
     (case status req of
        None \<Rightarrow> report
      | Some code \<Rightarrow>
          if code \<noteq> 0 then report\<lparr>statusCodes := increment (statusCodes report) code\<rparr>
          else report)"

text \<open>The body of the \<open>forEach\<close> callback, statement by statement.\<close>

definition countRequest ::
  "(string \<Rightarrow> error + URL) \<Rightarrow> RequestReport \<Rightarrow> NetworkRequest \<Rightarrow> error + RequestReport" where
  "countRequest newURL report req =
     bindResult
       (Inr (report\<lparr>requestsByMethod :=
                      incrementProperty (requestsByMethod report) (method req)\<rparr>))
       (\<lambda>r1. bindResult
          (tryCatch
             (bindResult (newURL (url req))
                (\<lambda>u. Inr (r1\<lparr>requestsByDomain :=
                              incrementProperty (requestsByDomain r1) (hostname u)\<rparr>)))
             (\<lambda>e. Inr r1))
          (\<lambda>r2. bindResult
             (Inr (r2\<lparr>requestsByType := countByType (url req) (requestsByType r2)\<rparr>))
             (\<lambda>r3. Inr (countByStatus req r3))))"

fun forEach :: "('s \<Rightarrow> 'a \<Rightarrow> error + 's) \<Rightarrow> 'a list \<Rightarrow> 's \<Rightarrow> error + 's" where
  "forEach f [] s = Inr s"
| "forEach f (x # xs) s = (case f s x of Inl e \<Rightarrow> Inl e | Inr s' \<Rightarrow> forEach f xs s')"

definition emptyReport :: "nat \<Rightarrow> RequestReport" where
  "emptyReport n =
     \<lparr>totalRequests = n, requestsByMethod = Map.empty, requestsByDomain = Map.empty,
      requestsByType = \<lparr>api = 0, data = 0, assets = 0, other = 0\<rparr>,
      statusCodes = Map.empty\<rparr>"

definition generateReport ::
  "(string \<Rightarrow> error + URL) \<Rightarrow> NetworkRequest list \<Rightarrow> error + RequestReport" where
  "generateReport newURL allRequests =
     forEach (countRequest newURL) allRequests (emptyReport (length allRequests))"

subsection \<open>The classification as an ordered table\<close>

text \<open>
  The coarse types, and the order in which the \<open>if\<close> chain of the callback tries
  them, each with the substrings that select it; \<open>Other\<close> is what is left.
  \<open>firstMatch\<close> walks such a table and lets the first type with an occurring
  substring win.
\<close>

datatype requestType = Api | Data | Assets | Other

definition typePatterns :: "(requestType \<times> string list) list" where
  "typePatterns =
     [(Api, [''api'', ''data'']),
      (Assets, [''.js'', ''.css'', ''.png'', ''.jpg'']),
      (Data, [''match'', ''live''])]"

fun firstMatch :: "(requestType \<times> string list) list \<Rightarrow> string \<Rightarrow> requestType" where
  "firstMatch [] u = Other"
| "firstMatch ((t, ps) # rest) u = (if list_ex (includesStr u) ps then t else firstMatch rest u)"

fun counter :: "requestType \<Rightarrow> RequestsByType \<Rightarrow> nat" where
  "counter Api byType = api byType"
| "counter Data byType = data byType"
| "counter Assets byType = assets byType"
| "counter Other byType = other byType"

subsection \<open>Counting in a list of requests\<close>

definition hostnameOf :: "(string \<Rightarrow> error + URL) \<Rightarrow> NetworkRequest \<Rightarrow> string option" where
  "hostnameOf newURL req = (case newURL (url req) of Inl e \<Rightarrow> None | Inr u \<Rightarrow> Some (hostname u))"

text \<open>The host names of the requests whose URL parses, in the order of the requests.\<close>

definition parsedHostnames :: "(string \<Rightarrow> error + URL) \<Rightarrow> NetworkRequest list \<Rightarrow> string list" where
  "parsedHostnames newURL reqs = List.map_filter (hostnameOf newURL) reqs"

text \<open>A count as an entry: a key that was never counted has no entry.\<close>

definition countOrAbsent :: "nat \<Rightarrow> jsValue option" where
  "countOrAbsent n = (if n = 0 then None else Some (JsNumber n))"

text \<open>An object all of whose own properties are numbers, and the number under a key.\<close>

definition numericCounts :: "jsObject \<Rightarrow> bool" where
  "numericCounts obj \<longleftrightarrow> (\<forall>k v. obj k = Some v \<longrightarrow> (\<exists>n. v = JsNumber n))"

definition countAt :: "jsObject \<Rightarrow> string \<Rightarrow> nat" where
  "countAt obj k = (case obj k of Some (JsNumber n) \<Rightarrow> n | _ \<Rightarrow> 0)"

text \<open>
  An instance of the parser for the examples below: on the URLs of this table it
  returns the host name that the platform's parser returns, and it rejects every other
  string, among them \<open>not a url\<close>, which the platform rejects too.
\<close>

definition sampleURLs :: "(string \<times> string) list" where
  "sampleURLs =
     [(''https://www.one.co.il/live/'', ''www.one.co.il''),
      (''https://www.one.co.il/live/app.js'', ''www.one.co.il''),
      (''http://constructor/'', ''constructor''),
      (''http://__proto__/'', ''__proto__'')]"

definition sampleURL :: "string \<Rightarrow> error + URL" where
  "sampleURL s =
     (case map_of sampleURLs s of
        Some h \<Rightarrow> Inr \<lparr>hostname = h\<rparr>
      | None \<Rightarrow> Inl TypeError)"

section \<open>Properties of the string operations\<close>

lemma includesStr_iff_sublist: "includesStr s p \<longleftrightarrow> sublist p s"
  by (induction s) (simp_all add: sublist_Cons_right)

lemma all_dropWhile_iff: "list_all P (dropWhile P xs) \<longleftrightarrow> list_all P xs"
  by (induction xs) simp_all

lemma trim_empty_iff: "trim s = [] \<longleftrightarrow> list_all isWhiteSpace s"
proof -
  have "trim s = [] \<longleftrightarrow> list_all isWhiteSpace (dropWhile isWhiteSpace s)"
    by (simp add: trim_def list_all_iff)
  then show ?thesis
    by (simp only: all_dropWhile_iff)
qed

section \<open>Properties of the validators\<close>

text \<open>
  C7.  A match whose two scores are both defined numbers is a played match; a match
  with \<open>homeScore\<close> or \<open>awayScore\<close> absent is not.
\<close>

theorem isPlayedMatch_scores:
  "(homeScore m \<noteq> None \<and> awayScore m \<noteq> None \<longrightarrow> isPlayedMatch m) \<and>
   (homeScore m = None \<or> awayScore m = None \<longrightarrow> \<not> isPlayedMatch m)"
  by (auto simp: isPlayedMatch_def typeofOptNumber_def)

theorem isPlayedMatch_scores_witness:
  "isPlayedMatch \<lparr>homeTeam = ''A'', awayTeam = ''B'', homeScore = Some (2::int),
      awayScore = Some 1, date = ''2024-01-01'', time = None, state = None, link = None\<rparr> \<and>
   \<not> isPlayedMatch \<lparr>homeTeam = ''A'', awayTeam = ''B'', homeScore = Some (2::int),
      awayScore = None, date = ''2024-01-01'', time = None, state = None, link = None\<rparr>"
  using isPlayedMatch_scores [of "\<lparr>homeTeam = ''A'', awayTeam = ''B'', homeScore = Some (2::int),
      awayScore = Some 1, date = ''2024-01-01'', time = None, state = None, link = None\<rparr>"]
    isPlayedMatch_scores [of "\<lparr>homeTeam = ''A'', awayTeam = ''B'', homeScore = Some (2::int),
      awayScore = None, date = ''2024-01-01'', time = None, state = None, link = None\<rparr>"]
  by simp

text \<open>
  A trimmed string is non-empty exactly when the string has a code unit that is not
  white space; this is what the validators test.
\<close>

lemma validateMatch_nonblank:
  "validateMatch m \<longleftrightarrow>
      \<not> list_all isWhiteSpace (homeTeam m) \<and> \<not> list_all isWhiteSpace (awayTeam m) \<and>
      date m \<noteq> []"
  by (auto simp: validateMatch_def truthyString_def typeofString_def trim_empty_iff)

text \<open>
  C8, as the code has it.  \<open>validateMatch\<close> holds exactly when \<open>homeTeam\<close> and
  \<open>awayTeam\<close> each contain a code unit that is not white space and \<open>date\<close> is a
  non-empty string.  The match \<open>{homeTeam: "A", awayTeam: "B", date: "2024-01-01"}\<close> is
  valid and \<open>{homeTeam: "", awayTeam: "B", date: "x"}\<close> is not.
\<close>

theorem validateMatch_iff:
  "(validateMatch m \<longleftrightarrow>
      \<not> list_all isWhiteSpace (homeTeam m) \<and> \<not> list_all isWhiteSpace (awayTeam m) \<and>
      date m \<noteq> []) \<and>
   validateMatch \<lparr>homeTeam = ''A'', awayTeam = ''B'', homeScore = None :: int option,
      awayScore = None, date = ''2024-01-01'', time = None, state = None, link = None\<rparr> \<and>
   \<not> validateMatch \<lparr>homeTeam = '''', awayTeam = ''B'', homeScore = None :: int option,
      awayScore = None, date = ''x'', time = None, state = None, link = None\<rparr>"
  by (simp add: validateMatch_nonblank isWhiteSpace_def)

theorem validateMatch_iff_witness:
  "\<not> validateMatch \<lparr>homeTeam = ''A'', awayTeam = ''  '', homeScore = None :: int option,
      awayScore = None, date = ''2024-01-01'', time = None, state = None, link = None\<rparr>"
  using validateMatch_iff [of "\<lparr>homeTeam = ''A'', awayTeam = ''  '',
      homeScore = None :: int option, awayScore = None, date = ''2024-01-01'', time = None,
      state = None, link = None\<rparr>"]
  by (simp add: isWhiteSpace_def)

text \<open>
  With "non-empty" in place of "not blank" the equivalence fails: a home team name of
  one space is a non-empty string, the away team name and the date are non-empty too,
  and the match is not valid.
\<close>

theorem validateMatch_blank_name_counterexample:
  "\<not> validateMatch \<lparr>homeTeam = '' '', awayTeam = ''B'', homeScore = None :: int option,
      awayScore = None, date = ''x'', time = None, state = None, link = None\<rparr> \<and>
   homeTeam \<lparr>homeTeam = '' '', awayTeam = ''B'', homeScore = None :: int option,
      awayScore = None, date = ''x'', time = None, state = None, link = None\<rparr> \<noteq> [] \<and>
   awayTeam \<lparr>homeTeam = '' '', awayTeam = ''B'', homeScore = None :: int option,
      awayScore = None, date = ''x'', time = None, state = None, link = None\<rparr> \<noteq> [] \<and>
   date \<lparr>homeTeam = '' '', awayTeam = ''B'', homeScore = None :: int option,
      awayScore = None, date = ''x'', time = None, state = None, link = None\<rparr> \<noteq> []"
  by (simp add: validateMatch_def trim_def isWhiteSpace_def)

text \<open>
  C2, as the code has it.  An upcoming match is not a played one, so at least one of
  its two scores is absent, and its \<open>time\<close> is a string with a code unit that is not
  white space (a non-empty string, then).
\<close>

theorem isUpcomingMatch_imp:
  "isUpcomingMatch m \<Longrightarrow>
     (homeScore m = None \<or> awayScore m = None) \<and>
     (\<exists>t. time m = Some t \<and> \<not> list_all isWhiteSpace t)"
  by (auto simp: isUpcomingMatch_def isPlayedMatch_def typeofOptNumber_def trim_empty_iff
      split: option.splits)

theorem isUpcomingMatch_imp_witness:
  "isUpcomingMatch \<lparr>homeTeam = ''A'', awayTeam = ''B'', homeScore = None :: int option,
      awayScore = None, date = ''2024-01-01'', time = Some ''19:00'', state = None,
      link = None\<rparr> \<and>
   \<not> list_all isWhiteSpace ''19:00''"
proof -
  have up: "isUpcomingMatch \<lparr>homeTeam = ''A'', awayTeam = ''B'', homeScore = None :: int option,
      awayScore = None, date = ''2024-01-01'', time = Some ''19:00'', state = None,
      link = None\<rparr>"
    by (simp add: isUpcomingMatch_def isPlayedMatch_def trim_def isWhiteSpace_def)
  from isUpcomingMatch_imp [OF up] up show ?thesis
    by simp
qed

text \<open>
  Both scores need not be absent: a match with a home score, no away score and a time
  is an upcoming match, and one of its scores is present.
\<close>

theorem isUpcomingMatch_one_score_counterexample:
  "isUpcomingMatch \<lparr>homeTeam = ''A'', awayTeam = ''B'', homeScore = Some (2::int),
      awayScore = None, date = ''2024-01-01'', time = Some ''19:00'', state = None,
      link = None\<rparr> \<and>
   homeScore \<lparr>homeTeam = ''A'', awayTeam = ''B'', homeScore = Some (2::int),
      awayScore = None, date = ''2024-01-01'', time = Some ''19:00'', state = None,
      link = None\<rparr> = Some 2"
  by (simp add: isUpcomingMatch_def isPlayedMatch_def trim_def isWhiteSpace_def)

section \<open>Properties of the network observer\<close>

lemma findIndex_Some:
  "findIndex P xs = Some i \<Longrightarrow> i < length xs \<and> P (xs ! i) \<and> (\<forall>j<i. \<not> P (xs ! j))"
proof (induction xs arbitrary: i)
  case Nil
  then show ?case by simp
next
  case (Cons x xs)
  show ?case
  proof (cases "P x")
    case True
    with Cons.prems show ?thesis by simp
  next
    case False
    with Cons.prems obtain k where k: "findIndex P xs = Some k" "i = Suc k"
      by auto
    from Cons.IH [OF k(1)] False k(2) show ?thesis
      by (auto simp: nth_Cons split: nat.splits)
  qed
qed

lemma findIndex_None: "findIndex P xs = None \<longleftrightarrow> (\<forall>x\<in>set xs. \<not> P x)"
  by (induction xs) auto

lemma onResponse_no_match:
  "\<forall>r\<in>set reqs. \<not> unmatched response r \<Longrightarrow> onResponse now response reqs = reqs"
  using findIndex_None [of "unmatched response" reqs] by (simp add: onResponse_def)

lemma findIndex_cong:
  "(\<And>x. x \<in> set xs \<Longrightarrow> P x = Q x) \<Longrightarrow> findIndex P xs = findIndex Q xs"
  by (induction xs) simp_all

lemma truthy_orElse_iff:
  "truthyOptString (orElse a b) \<longleftrightarrow>
     (\<exists>v. a = Some v \<and> v \<noteq> []) \<or> (\<exists>v. b = Some v \<and> v \<noteq> [])"
  by (cases a; cases b) (simp_all add: orElse_def truthyOptString_def truthyString_def)

text \<open>
  C3, as the code has it.  When a response is matched to the record at position
  \<open>i\<close>, that record's \<open>cached\<close> flag becomes \<open>true\<close> if the response has a
  \<open>cache-control\<close> header or an \<open>etag\<close> header with a non-empty value, and
  \<open>false\<close> otherwise.
\<close>

theorem onResponse_cached:
  "findIndex (unmatched response) reqs = Some i \<Longrightarrow>
   cached (onResponse now response reqs ! i) =
     Some ((\<exists>v. map_of (responseHeaders response) ''cache-control'' = Some v \<and> v \<noteq> []) \<or>
           (\<exists>v. map_of (responseHeaders response) ''etag'' = Some v \<and> v \<noteq> []))"
proof -
  assume found: "findIndex (unmatched response) reqs = Some i"
  then have "i < length reqs"
    using findIndex_Some [of "unmatched response" reqs i] by simp
  with found show ?thesis
    by (simp add: onResponse_def Let_def truthy_orElse_iff)
qed

theorem onResponse_cached_witness:
  "cached (onResponse 150
      \<lparr>responseUrl = ''https://www.one.co.il/live/'', responseStatus = 200,
        responseHeaders = [(''content-type'', ''text/html''), (''etag'', ''W/abc'')]\<rparr>
      [\<lparr>url = ''https://www.one.co.il/live/'', method = ''GET'', timestamp = 100,
        responseTime = None, cached = None, status = None\<rparr>] ! 0) = Some True"
  using onResponse_cached [of
      "\<lparr>responseUrl = ''https://www.one.co.il/live/'', responseStatus = 200,
        responseHeaders = [(''content-type'', ''text/html''), (''etag'', ''W/abc'')]\<rparr>"
      "[\<lparr>url = ''https://www.one.co.il/live/'', method = ''GET'', timestamp = 100,
        responseTime = None, cached = None, status = None\<rparr>]" 0 150]
  by (simp add: unmatched_def truthyOptNumber_def)

text \<open>
  The presence of a header alone does not decide the flag: a response that carries a
  \<open>cache-control\<close> header with the empty value, and no \<open>etag\<close>, leaves the
  matched record with \<open>cached = false\<close>.
\<close>

theorem onResponse_cached_empty_header_counterexample:
  "observe
     [(100, RequestEvent \<lparr>requestUrl = ''https://www.one.co.il/live/'', requestMethod = ''GET''\<rparr>),
      (150, ResponseEvent \<lparr>responseUrl = ''https://www.one.co.il/live/'', responseStatus = 200,
              responseHeaders = [(''cache-control'', '''')]\<rparr>)] []
   = [\<lparr>url = ''https://www.one.co.il/live/'', method = ''GET'', timestamp = 100,
       responseTime = Some 50, cached = Some False, status = Some 200\<rparr>] \<and>
   map_of (responseHeaders \<lparr>responseUrl = ''https://www.one.co.il/live/'', responseStatus = 200,
              responseHeaders = [(''cache-control'', '''')]\<rparr>) ''cache-control'' = Some ''''"
  by (simp add: onRequest_def onResponse_def unmatched_def truthyOptNumber_def
      truthyOptString_def truthyString_def orElse_def)

text \<open>
  The listener looks for the first record with the response's URL whose
  \<open>responseTime\<close> is falsy.  As long as no record has a response time of zero, that
  is the first record with the response's URL and no response time; this record alone
  is updated, and the list is unchanged when there is none.
\<close>

lemma onResponse_earliest_unresolved:
  assumes "\<forall>r\<in>set reqs. responseTime r \<noteq> Some 0"
  shows "onResponse now response reqs =
     (case findIndex (\<lambda>r. url r = responseUrl response \<and> responseTime r = None) reqs of
        None \<Rightarrow> reqs
      | Some i \<Rightarrow>
          reqs[i := (reqs ! i)
            \<lparr>responseTime := Some (now - timestamp (reqs ! i)),
             status := Some (responseStatus response),
             cached := Some (truthyOptString
               (orElse (map_of (responseHeaders response) ''cache-control'')
                  (map_of (responseHeaders response) ''etag'')))\<rparr>])"
proof -
  have "unmatched response r = (url r = responseUrl response \<and> responseTime r = None)"
    if "r \<in> set reqs" for r
    using assms that by (cases "responseTime r") (auto simp: unmatched_def truthyOptNumber_def)
  then have "findIndex (unmatched response) reqs =
      findIndex (\<lambda>r. url r = responseUrl response \<and> responseTime r = None) reqs"
    by (rule findIndex_cong)
  then show ?thesis
    by (simp add: onResponse_def Let_def split: option.splits)
qed

text \<open>
  C4.  A response that arrives in the millisecond of its request gives the record the
  response time \<open>0\<close>, which \<open>!req.responseTime\<close> takes for a missing one.  Here
  the first request is answered at once, a second request for the same URL follows, and
  the response to the second overwrites the status and response time of the first
  record; the second record, the earliest one without a response time, stays as it
  was.
\<close>

theorem onResponse_zero_responseTime:
  "observe
     [(100, RequestEvent \<lparr>requestUrl = ''https://www.one.co.il/live/'', requestMethod = ''GET''\<rparr>),
      (100, ResponseEvent \<lparr>responseUrl = ''https://www.one.co.il/live/'', responseStatus = 200,
              responseHeaders = [(''etag'', ''W/abc'')]\<rparr>),
      (200, RequestEvent \<lparr>requestUrl = ''https://www.one.co.il/live/'', requestMethod = ''GET''\<rparr>),
      (250, ResponseEvent \<lparr>responseUrl = ''https://www.one.co.il/live/'', responseStatus = 404,
              responseHeaders = []\<rparr>)] []
   = [\<lparr>url = ''https://www.one.co.il/live/'', method = ''GET'', timestamp = 100,
       responseTime = Some 150, cached = Some False, status = Some 404\<rparr>,
      \<lparr>url = ''https://www.one.co.il/live/'', method = ''GET'', timestamp = 200,
       responseTime = None, cached = None, status = None\<rparr>]"
  by (simp add: onRequest_def onResponse_def unmatched_def truthyOptNumber_def
      truthyOptString_def truthyString_def orElse_def)

section \<open>Properties of the report aggregator\<close>

lemma countRequest_Inr:
  "\<exists>r'. countRequest newURL r req = Inr r' \<and>
     totalRequests r' = totalRequests r \<and>
     requestsByMethod r' = incrementProperty (requestsByMethod r) (method req) \<and>
     requestsByDomain r' =
       (case hostnameOf newURL req of
          None \<Rightarrow> requestsByDomain r
        | Some h \<Rightarrow> incrementProperty (requestsByDomain r) h) \<and>
     requestsByType r' = countByType (url req) (requestsByType r)"
  by (cases "newURL (url req)")
    (auto simp: countRequest_def bindResult_def tryCatch_def hostnameOf_def countByStatus_def
      split: option.splits)

lemma counter_countByType:
  "counter t (countByType u b) = counter t b + (if firstMatch typePatterns u = t then 1 else 0)"
  by (cases t) (simp_all add: countByType_def typePatterns_def)

text \<open>
  The loop never throws, and it leaves in \<open>requestsByMethod\<close> and
  \<open>requestsByDomain\<close> what incrementing the keys one after the other gives: the
  methods of all requests, and the host names of the requests whose URL parses.
\<close>

lemma forEach_requestsByMethod:
  "\<exists>r'. forEach (countRequest newURL) reqs r = Inr r' \<and>
     requestsByMethod r' = foldl incrementProperty (requestsByMethod r) (map method reqs)"
proof (induction reqs arbitrary: r)
  case Nil
  show ?case by simp
next
  case (Cons q reqs)
  obtain r1 where r1: "countRequest newURL r q = Inr r1"
    and m1: "requestsByMethod r1 = incrementProperty (requestsByMethod r) (method q)"
    using countRequest_Inr [of newURL r q] by blast
  obtain r' where r': "forEach (countRequest newURL) reqs r1 = Inr r'"
    and m': "requestsByMethod r' =
        foldl incrementProperty (requestsByMethod r1) (map method reqs)"
    using Cons.IH [of r1] by blast
  have "forEach (countRequest newURL) (q # reqs) r = Inr r'"
    using r1 r' by simp
  moreover have "requestsByMethod r' =
        foldl incrementProperty (requestsByMethod r) (map method (q # reqs))"
    using m' by (simp add: m1)
  ultimately show ?case by blast
qed

lemma forEach_requestsByDomain:
  "\<exists>r'. forEach (countRequest newURL) reqs r = Inr r' \<and>
     requestsByDomain r' =
       foldl incrementProperty (requestsByDomain r) (parsedHostnames newURL reqs)"
proof (induction reqs arbitrary: r)
  case Nil
  show ?case by (simp add: parsedHostnames_def)
next
  case (Cons q reqs)
  obtain r1 where r1: "countRequest newURL r q = Inr r1"
    and d1: "requestsByDomain r1 =
       (case hostnameOf newURL q of
          None \<Rightarrow> requestsByDomain r
        | Some h \<Rightarrow> incrementProperty (requestsByDomain r) h)"
    using countRequest_Inr [of newURL r q] by blast
  obtain r' where r': "forEach (countRequest newURL) reqs r1 = Inr r'"
    and d': "requestsByDomain r' =
        foldl incrementProperty (requestsByDomain r1) (parsedHostnames newURL reqs)"
    using Cons.IH [of r1] by blast
  have "forEach (countRequest newURL) (q # reqs) r = Inr r'"
    using r1 r' by simp
  moreover have "requestsByDomain r' =
        foldl incrementProperty (requestsByDomain r) (parsedHostnames newURL (q # reqs))"
    using d' d1 by (cases "hostnameOf newURL q") (simp_all add: parsedHostnames_def)
  ultimately show ?case by blast
qed

lemma forEach_requestsByType:
  "\<exists>r'. forEach (countRequest newURL) reqs r = Inr r' \<and>
     (\<forall>t. counter t (requestsByType r') =
        counter t (requestsByType r) +
        length (filter (\<lambda>q. firstMatch typePatterns (url q) = t) reqs))"
proof (induction reqs arbitrary: r)
  case Nil
  show ?case by simp
next
  case (Cons q reqs)
  obtain r1 where r1: "countRequest newURL r q = Inr r1"
    and t1: "requestsByType r1 = countByType (url q) (requestsByType r)"
    using countRequest_Inr [of newURL r q] by blast
  obtain r' where r': "forEach (countRequest newURL) reqs r1 = Inr r'"
    and t': "\<forall>t. counter t (requestsByType r') =
        counter t (requestsByType r1) +
        length (filter (\<lambda>q. firstMatch typePatterns (url q) = t) reqs)"
    using Cons.IH [of r1] by blast
  have "forEach (countRequest newURL) (q # reqs) r = Inr r'"
    using r1 r' by simp
  moreover have "counter t (requestsByType r') =
        counter t (requestsByType r) +
        length (filter (\<lambda>q. firstMatch typePatterns (url q) = t) (q # reqs))" for t
    using t' by (simp add: t1 counter_countByType)
  ultimately show ?case by blast
qed

lemma filter_types_partition:
  "length (filter (\<lambda>q. f q = Api) qs) + length (filter (\<lambda>q. f q = Data) qs) +
   length (filter (\<lambda>q. f q = Assets) qs) + length (filter (\<lambda>q. f q = Other) qs) = length qs"
proof (induction qs)
  case Nil
  show ?case by simp
next
  case (Cons q qs)
  then show ?case by (cases "f q") simp_all
qed

text \<open>
  On an object whose own properties are numbers, incrementing a key that
  \<open>Object.prototype\<close> does not have adds one to the number under the key, and starts
  it at one when the key is new.
\<close>

lemma incrementProperty_plain:
  assumes "\<not> inheritedKey k" and "numericCounts obj"
  shows "incrementProperty obj k = obj(k \<mapsto> JsNumber (countAt obj k + 1))"
proof (cases "obj k")
  case None
  from assms(1) have "k \<noteq> ''__proto__''" and "map_of prototypeFunctions k = None"
    by (simp_all add: inheritedKey_def)
  with None show ?thesis
    by (simp add: incrementProperty_def getProperty_def setProperty_def countAt_def)
next
  case (Some v)
  with assms(2) obtain n where v: "v = JsNumber n"
    by (auto simp: numericCounts_def)
  from assms(1) have "k \<noteq> ''__proto__''"
    by (simp add: inheritedKey_def)
  with Some v show ?thesis
    by (simp add: incrementProperty_def getProperty_def setProperty_def countAt_def)
qed

lemma foldl_incrementProperty_plain:
  assumes "\<forall>k\<in>set ks. \<not> inheritedKey k" and "numericCounts obj"
  shows "numericCounts (foldl incrementProperty obj ks) \<and>
     (\<forall>x. foldl incrementProperty obj ks x =
        (if count_list ks x = 0 then obj x
         else Some (JsNumber (countAt obj x + count_list ks x))))"
  using assms
proof (induction ks arbitrary: obj)
  case Nil
  then show ?case by simp
next
  case (Cons k ks)
  define obj1 where "obj1 = incrementProperty obj k"
  from Cons.prems have k: "\<not> inheritedKey k" and ks: "\<forall>k\<in>set ks. \<not> inheritedKey k"
    by simp_all
  have step: "obj1 = obj(k \<mapsto> JsNumber (countAt obj k + 1))"
    unfolding obj1_def using k Cons.prems(2) by (rule incrementProperty_plain)
  have num: "numericCounts obj1"
    using Cons.prems(2) by (simp add: step numericCounts_def)
  have at: "countAt obj1 x = (if x = k then countAt obj k + 1 else countAt obj x)" for x
    by (simp add: step countAt_def)
  have own: "obj1 x = (if x = k then Some (JsNumber (countAt obj k + 1)) else obj x)" for x
    by (simp add: step)
  from Cons.IH [OF ks num]
  have IH1: "numericCounts (foldl incrementProperty obj1 ks)"
    and IH2: "\<And>x. foldl incrementProperty obj1 ks x =
        (if count_list ks x = 0 then obj1 x
         else Some (JsNumber (countAt obj1 x + count_list ks x)))"
    by simp_all
  have "foldl incrementProperty obj (k # ks) x =
        (if count_list (k # ks) x = 0 then obj x
         else Some (JsNumber (countAt obj x + count_list (k # ks) x)))" for x
    using IH2 [of x] by (simp add: obj1_def [symmetric] at own)
  moreover have "numericCounts (foldl incrementProperty obj (k # ks))"
    using IH1 by (simp add: obj1_def)
  ultimately show ?case
    by blast
qed

lemma foldl_incrementProperty_empty:
  assumes "\<forall>k\<in>set ks. \<not> inheritedKey k"
  shows "foldl incrementProperty Map.empty ks x = countOrAbsent (count_list ks x)"
proof -
  have "numericCounts Map.empty"
    by (simp add: numericCounts_def)
  from foldl_incrementProperty_plain [OF assms this] show ?thesis
    by (simp add: countOrAbsent_def countAt_def)
qed

text \<open>
  The aggregation never throws, whatever the parser does on the URLs, and its report
  holds in \<open>requestsByMethod\<close> and \<open>requestsByDomain\<close> what incrementing the keys
  one after the other gives.
\<close>

lemma generateReport_folds:
  "\<exists>report. generateReport newURL reqs = Inr report \<and>
     requestsByMethod report = foldl incrementProperty Map.empty (map method reqs) \<and>
     requestsByDomain report =
       foldl incrementProperty Map.empty (parsedHostnames newURL reqs)"
proof -
  obtain report where rep: "generateReport newURL reqs = Inr report"
    and methods: "requestsByMethod report =
       foldl incrementProperty Map.empty (map method reqs)"
    using forEach_requestsByMethod [of newURL reqs "emptyReport (length reqs)"]
    by (auto simp: generateReport_def emptyReport_def)
  obtain report' where rep': "generateReport newURL reqs = Inr report'"
    and domains: "requestsByDomain report' =
       foldl incrementProperty Map.empty (parsedHostnames newURL reqs)"
    using forEach_requestsByDomain [of newURL reqs "emptyReport (length reqs)"]
    by (auto simp: generateReport_def emptyReport_def)
  from rep rep' have "report' = report"
    by simp
  with rep methods domains show ?thesis
    by blast
qed

text \<open>
  For methods that are not keys of \<open>Object.prototype\<close>, \<open>requestsByMethod\<close> maps
  every method to the number of recorded requests with that method, a method without
  requests being absent.  For three requests with the methods GET, GET and POST it is
  \<open>{GET: 2, POST: 1}\<close>.
\<close>

lemma requestsByMethod_plain_keys:
  assumes "\<forall>q\<in>set reqs. \<not> inheritedKey (method q)"
  shows "\<exists>report. generateReport newURL reqs = Inr report \<and>
     (\<forall>m. requestsByMethod report m = countOrAbsent (count_list (map method reqs) m))"
proof -
  obtain report where rep: "generateReport newURL reqs = Inr report"
    and fold: "requestsByMethod report = foldl incrementProperty Map.empty (map method reqs)"
    using generateReport_folds [of newURL reqs] by blast
  have keys: "\<forall>k\<in>set (map method reqs). \<not> inheritedKey k"
    using assms by simp
  have "requestsByMethod report m = countOrAbsent (count_list (map method reqs) m)" for m
    using foldl_incrementProperty_empty [OF keys, of m] by (simp only: fold)
  with rep show ?thesis by blast
qed

lemma plain_GET_POST: "\<not> inheritedKey ''GET''" "\<not> inheritedKey ''POST''"
  by (simp_all add: inheritedKey_def prototypeFunctions_def)

lemma requestsByMethod_GET_GET_POST:
  assumes "map method reqs = [''GET'', ''GET'', ''POST'']"
  shows "\<exists>report. generateReport newURL reqs = Inr report \<and>
     requestsByMethod report = [''GET'' \<mapsto> JsNumber 2, ''POST'' \<mapsto> JsNumber 1]"
proof -
  have "method q = ''GET'' \<or> method q = ''POST''" if "q \<in> set reqs" for q
  proof -
    from that have "method q \<in> set (map method reqs)"
      by simp
    then show ?thesis
      by (simp add: assms)
  qed
  with plain_GET_POST have "\<forall>q\<in>set reqs. \<not> inheritedKey (method q)"
    by metis
  from requestsByMethod_plain_keys [OF this, of newURL]
  obtain report where rep: "generateReport newURL reqs = Inr report"
    and all: "\<And>m. requestsByMethod report m =
      countOrAbsent (count_list [''GET'', ''GET'', ''POST''] m)"
    by (auto simp: assms)
  have "requestsByMethod report = [''GET'' \<mapsto> JsNumber 2, ''POST'' \<mapsto> JsNumber 1]"
  proof
    fix m
    show "requestsByMethod report m = [''GET'' \<mapsto> JsNumber 2, ''POST'' \<mapsto> JsNumber 1] m"
      by (simp add: all countOrAbsent_def)
  qed
  with rep show ?thesis by blast
qed

lemma increment_constructor:
  "incrementProperty Map.empty ''constructor'' =
     [''constructor'' \<mapsto> JsString ''function Object() { [native code] }1'']"
  by (simp add: incrementProperty_def getProperty_def setProperty_def
      prototypeFunctions_def functionToString_def)

text \<open>
  C5.  A method that is a key of \<open>Object.prototype\<close> is not counted.  Of these two
  requests one has the method \<open>constructor\<close> and one the method \<open>__proto__\<close>:
  the entry of \<open>constructor\<close> is the string of the inherited function with \<open>1\<close>
  appended, not the number 1, and \<open>__proto__\<close> has no entry.
\<close>

theorem requestsByMethod_inherited_key:
  "\<exists>report. generateReport sampleURL
      [\<lparr>url = ''https://www.one.co.il/live/'', method = ''constructor'', timestamp = 100,
        responseTime = None, cached = None, status = None\<rparr>,
       \<lparr>url = ''https://www.one.co.il/live/'', method = ''__proto__'', timestamp = 101,
        responseTime = None, cached = None, status = None\<rparr>] = Inr report \<and>
     requestsByMethod report ''constructor'' =
       Some (JsString ''function Object() { [native code] }1'') \<and>
     requestsByMethod report ''__proto__'' = None"
proof -
  let ?reqs = "[\<lparr>url = ''https://www.one.co.il/live/'', method = ''constructor'',
        timestamp = 100, responseTime = None, cached = None, status = None\<rparr>,
       \<lparr>url = ''https://www.one.co.il/live/'', method = ''__proto__'', timestamp = 101,
        responseTime = None, cached = None, status = None\<rparr>]"
  obtain report where rep: "generateReport sampleURL ?reqs = Inr report"
    and fold: "requestsByMethod report =
       foldl incrementProperty Map.empty (map method ?reqs)"
    using generateReport_folds [of sampleURL ?reqs] by blast
  have methods: "map method ?reqs = [''constructor'', ''__proto__'']"
    by simp
  have obj: "requestsByMethod report =
      [''constructor'' \<mapsto> JsString ''function Object() { [native code] }1'']"
    unfolding fold methods
    by (simp add: increment_constructor)
      (simp add: incrementProperty_def setProperty_def)
  have "requestsByMethod report ''constructor'' =
       Some (JsString ''function Object() { [native code] }1'')"
    by (simp add: obj)
  moreover have "requestsByMethod report ''__proto__'' = None"
    by (simp add: obj)
  ultimately show ?thesis
    using rep by blast
qed

text \<open>
  \<open>requestsByDomain\<close> is the same as for the requests with a parsable URL alone:
  a request whose URL does not parse leaves it as it is.
\<close>

lemma parsedHostnames_parsable:
  "parsedHostnames newURL (filter (\<lambda>q. hostnameOf newURL q \<noteq> None) reqs) =
   parsedHostnames newURL reqs"
  by (induction reqs) (auto simp: parsedHostnames_def)

lemma requestsByDomain_skips_unparsable:
  "\<exists>report report'.
     generateReport newURL reqs = Inr report \<and>
     generateReport newURL (filter (\<lambda>q. hostnameOf newURL q \<noteq> None) reqs) = Inr report' \<and>
     requestsByDomain report = requestsByDomain report'"
proof -
  obtain report where rep: "generateReport newURL reqs = Inr report"
    and fold: "requestsByDomain report =
       foldl incrementProperty Map.empty (parsedHostnames newURL reqs)"
    using generateReport_folds [of newURL reqs] by blast
  obtain report' where rep': "generateReport newURL
        (filter (\<lambda>q. hostnameOf newURL q \<noteq> None) reqs) = Inr report'"
    and fold': "requestsByDomain report' =
       foldl incrementProperty Map.empty
         (parsedHostnames newURL (filter (\<lambda>q. hostnameOf newURL q \<noteq> None) reqs))"
    using generateReport_folds [of newURL "filter (\<lambda>q. hostnameOf newURL q \<noteq> None) reqs"]
    by blast
  have "requestsByDomain report = requestsByDomain report'"
    by (simp only: fold fold' parsedHostnames_parsable)
  with rep rep' show ?thesis by blast
qed

text \<open>
  When no host name is a key of \<open>Object.prototype\<close>, \<open>requestsByDomain\<close> maps every
  host name to the number of requests whose URL parses to that host name, a host name
  without requests being absent.
\<close>

lemma count_list_parsedHostnames:
  "count_list (parsedHostnames newURL reqs) h =
   count_list (map (hostnameOf newURL) reqs) (Some h)"
  by (induction reqs) (auto simp: parsedHostnames_def split: option.splits)

lemma requestsByDomain_plain_keys:
  assumes "\<forall>h\<in>set (parsedHostnames newURL reqs). \<not> inheritedKey h"
  shows "\<exists>report. generateReport newURL reqs = Inr report \<and>
     (\<forall>h. requestsByDomain report h =
        countOrAbsent (count_list (map (hostnameOf newURL) reqs) (Some h)))"
proof -
  obtain report where rep: "generateReport newURL reqs = Inr report"
    and fold: "requestsByDomain report =
       foldl incrementProperty Map.empty (parsedHostnames newURL reqs)"
    using generateReport_folds [of newURL reqs] by blast
  have "requestsByDomain report h =
      countOrAbsent (count_list (map (hostnameOf newURL) reqs) (Some h))" for h
    using foldl_incrementProperty_empty [OF assms, of h]
    by (simp only: fold count_list_parsedHostnames)
  with rep show ?thesis by blast
qed

text \<open>
  C6.  A host name that is a key of \<open>Object.prototype\<close> is not counted.  Of these
  four requests one has an unparsable URL and is skipped without a throw, two go to
  the host \<open>constructor\<close> and one to the host \<open>__proto__\<close>: the entry of
  \<open>constructor\<close> is the string of the inherited function with \<open>11\<close> appended, not
  the number 2, and \<open>__proto__\<close> has no entry.
\<close>

theorem requestsByDomain_inherited_key:
  "\<exists>report. generateReport sampleURL
      [\<lparr>url = ''http://constructor/'', method = ''GET'', timestamp = 100,
        responseTime = None, cached = None, status = None\<rparr>,
       \<lparr>url = ''not a url'', method = ''GET'', timestamp = 101,
        responseTime = None, cached = None, status = None\<rparr>,
       \<lparr>url = ''http://constructor/'', method = ''GET'', timestamp = 102,
        responseTime = None, cached = None, status = None\<rparr>,
       \<lparr>url = ''http://__proto__/'', method = ''GET'', timestamp = 103,
        responseTime = None, cached = None, status = None\<rparr>] = Inr report \<and>
     requestsByDomain report ''constructor'' =
       Some (JsString ''function Object() { [native code] }11'') \<and>
     requestsByDomain report ''__proto__'' = None"
proof -
  let ?reqs = "[\<lparr>url = ''http://constructor/'', method = ''GET'', timestamp = 100,
        responseTime = None, cached = None, status = None\<rparr>,
       \<lparr>url = ''not a url'', method = ''GET'', timestamp = 101,
        responseTime = None, cached = None, status = None\<rparr>,
       \<lparr>url = ''http://constructor/'', method = ''GET'', timestamp = 102,
        responseTime = None, cached = None, status = None\<rparr>,
       \<lparr>url = ''http://__proto__/'', method = ''GET'', timestamp = 103,
        responseTime = None, cached = None, status = None\<rparr>]"
  obtain report where rep: "generateReport sampleURL ?reqs = Inr report"
    and fold: "requestsByDomain report =
       foldl incrementProperty Map.empty (parsedHostnames sampleURL ?reqs)"
    using generateReport_folds [of sampleURL ?reqs] by blast
  have hosts: "parsedHostnames sampleURL ?reqs = [''constructor'', ''constructor'', ''__proto__'']"
    by (simp add: parsedHostnames_def hostnameOf_def sampleURL_def sampleURLs_def)
  have again: "incrementProperty
      [''constructor'' \<mapsto> JsString ''function Object() { [native code] }1''] ''constructor'' =
      [''constructor'' \<mapsto> JsString ''function Object() { [native code] }11'']"
    by (simp add: incrementProperty_def getProperty_def setProperty_def)
  have obj: "requestsByDomain report =
      [''constructor'' \<mapsto> JsString ''function Object() { [native code] }11'']"
    unfolding fold hosts
    by (simp add: increment_constructor again)
      (simp add: incrementProperty_def setProperty_def)
  have "requestsByDomain report ''constructor'' =
       Some (JsString ''function Object() { [native code] }11'')"
    by (simp add: obj)
  moreover have "requestsByDomain report ''__proto__'' = None"
    by (simp add: obj)
  ultimately show ?thesis
    using rep by blast
qed

text \<open>
  C1, as the code has it.  The aggregation returns a report in which the counter of
  every type is the number of requests that the table \<^const>\<open>typePatterns\<close> gives that
  type, first match winning in the order api, assets, data, other; the four counters
  add up to the number of requests, every request having exactly one type.  A URL with
  no api pattern that matches both a data pattern and an assets pattern counts as
  assets.
\<close>

theorem requestsByType_first_match:
  "(\<exists>report. generateReport newURL reqs = Inr report \<and>
      (\<forall>t. counter t (requestsByType report) =
         length (filter (\<lambda>q. firstMatch typePatterns (url q) = t) reqs)) \<and>
      api (requestsByType report) + data (requestsByType report) +
        assets (requestsByType report) + other (requestsByType report) = length reqs) \<and>
   (\<not> includesStr u ''api'' \<and> \<not> includesStr u ''data'' \<and>
    (includesStr u ''match'' \<or> includesStr u ''live'') \<and>
    (includesStr u ''.js'' \<or> includesStr u ''.css'' \<or>
     includesStr u ''.png'' \<or> includesStr u ''.jpg'') \<longrightarrow>
      countByType u byType = byType\<lparr>assets := assets byType + 1\<rparr>)"
proof -
  obtain report where rep: "generateReport newURL reqs = Inr report"
    and cnt: "\<forall>t. counter t (requestsByType report) =
        counter t (requestsByType (emptyReport (length reqs))) +
        length (filter (\<lambda>q. firstMatch typePatterns (url q) = t) reqs)"
    using forEach_requestsByType [of newURL reqs "emptyReport (length reqs)"]
    by (auto simp: generateReport_def)
  have each: "counter t (requestsByType report) =
         length (filter (\<lambda>q. firstMatch typePatterns (url q) = t) reqs)" for t
    using cnt by (cases t) (simp_all add: emptyReport_def)
  have "api (requestsByType report) + data (requestsByType report) +
        assets (requestsByType report) + other (requestsByType report) = length reqs"
    using each [of Api] each [of Data] each [of Assets] each [of Other]
      filter_types_partition [of "\<lambda>q. firstMatch typePatterns (url q)" reqs]
    by simp
  with rep each show ?thesis
    by (auto simp: countByType_def)
qed

theorem requestsByType_first_match_witness:
  "(\<exists>report. generateReport sampleURL
       [\<lparr>url = ''https://www.one.co.il/live/app.js'', method = ''GET'', timestamp = 100,
         responseTime = None, cached = None, status = None\<rparr>,
        \<lparr>url = ''https://www.one.co.il/live/'', method = ''GET'', timestamp = 101,
         responseTime = None, cached = None, status = None\<rparr>] = Inr report \<and>
      counter Assets (requestsByType report) = 1 \<and>
      counter Data (requestsByType report) = 1) \<and>
   countByType ''https://www.one.co.il/live/app.js'' \<lparr>api = 0, data = 0, assets = 0, other = 0\<rparr>
     = \<lparr>api = 0, data = 0, assets = 1, other = 0\<rparr>"
proof -
  note first_match = requestsByType_first_match [of sampleURL
      "[\<lparr>url = ''https://www.one.co.il/live/app.js'', method = ''GET'', timestamp = 100,
         responseTime = None, cached = None, status = None\<rparr>,
        \<lparr>url = ''https://www.one.co.il/live/'', method = ''GET'', timestamp = 101,
         responseTime = None, cached = None, status = None\<rparr>]"
      "''https://www.one.co.il/live/app.js''"
      "\<lparr>api = 0, data = 0, assets = 0, other = 0\<rparr>"]
  from first_match obtain report where
    rep: "generateReport sampleURL
       [\<lparr>url = ''https://www.one.co.il/live/app.js'', method = ''GET'', timestamp = 100,
         responseTime = None, cached = None, status = None\<rparr>,
        \<lparr>url = ''https://www.one.co.il/live/'', method = ''GET'', timestamp = 101,
         responseTime = None, cached = None, status = None\<rparr>] = Inr report"
    and cnt: "\<And>t. counter t (requestsByType report) =
       length (filter (\<lambda>q. firstMatch typePatterns (url q) = t)
         [\<lparr>url = ''https://www.one.co.il/live/app.js'', method = ''GET'', timestamp = 100,
           responseTime = None, cached = None, status = None\<rparr>,
          \<lparr>url = ''https://www.one.co.il/live/'', method = ''GET'', timestamp = 101,
           responseTime = None, cached = None, status = None\<rparr>])"
    by blast
  from first_match have one: "countByType ''https://www.one.co.il/live/app.js''
      \<lparr>api = 0, data = 0, assets = 0, other = 0\<rparr> = \<lparr>api = 0, data = 0, assets = 1, other = 0\<rparr>"
    by simp
  from cnt [of Assets] have "counter Assets (requestsByType report) = 1"
    by (simp add: typePatterns_def)
  moreover from cnt [of Data] have "counter Data (requestsByType report) = 1"
    by (simp add: typePatterns_def)
  ultimately show ?thesis
    using rep one by blast
qed

text \<open>
  Data does not come before assets: this URL contains the data pattern \<open>live\<close> and the
  assets pattern \<open>.js\<close>, and it is counted under assets, not under data.
\<close>

theorem requestsByType_data_before_assets_counterexample:
  "includesStr ''https://www.one.co.il/live/app.js'' ''live'' \<and>
   includesStr ''https://www.one.co.il/live/app.js'' ''.js'' \<and>
   data (countByType ''https://www.one.co.il/live/app.js''
           \<lparr>api = 0, data = 0, assets = 0, other = 0\<rparr>) = 0 \<and>
   assets (countByType ''https://www.one.co.il/live/app.js''
           \<lparr>api = 0, data = 0, assets = 0, other = 0\<rparr>) = 1"
  by (simp add: countByType_def)

end
